theory Spec2Isabelle
  imports Main
begin

section \<open>JavaScript values, objects and the store\<close>

text \<open>
  The values that flow through \<^verbatim>\<open>lib/couchdb.js\<close>: JSON data, and references to
  objects owned by the caller. A document handed to \<^verbatim>\<open>save\<close> is mutated in place
  and handed back, so documents live in a store (\<open>heap\<close>) and are passed as
  \<open>JRef\<close>; objects produced by \<^verbatim>\<open>JSON.parse\<close> or built locally are fresh and never
  shared, so they are carried by value (\<open>JObj\<close>). Numbers that occur here are
  integers (ports, status codes).
\<close>

datatype jsval =
    JUndefined
  | JNull
  | JBool bool
  | JNum int
  | JStr string
  | JArr "jsval list"
  | JObj "(string \<times> jsval) list"
  | JRef nat

type_synonym jsobj = "(string \<times> jsval) list"

type_synonym heap = "nat \<Rightarrow> jsobj"

text \<open>The truth value JavaScript gives a value in \<^verbatim>\<open>if (v)\<close>, \<^verbatim>\<open>!v\<close>, \<^verbatim>\<open>a || b\<close>, \<^verbatim>\<open>a && b\<close>.\<close>

fun truthy :: "jsval \<Rightarrow> bool" where
  "truthy JUndefined = False"
| "truthy JNull = False"
| "truthy (JBool b) = b"
| "truthy (JNum n) = (n \<noteq> 0)"
| "truthy (JStr s) = (s \<noteq> [])"
| "truthy (JArr xs) = True"
| "truthy (JObj kvs) = True"
| "truthy (JRef r) = True"

text \<open>A field that holds a string or is missing, as the fields of a parsed URL and the
  optional \<^verbatim>\<open>id\<close> argument: \<open>None\<close> is \<^verbatim>\<open>undefined\<close>.\<close>

definition truthy_str :: "string option \<Rightarrow> bool" where
  "truthy_str s = (case s of None \<Rightarrow> False | Some t \<Rightarrow> t \<noteq> [])"

text \<open>\<^verbatim>\<open>s || ''\<close> on such a field.\<close>

definition or_empty :: "string option \<Rightarrow> string" where
  "or_empty s = (case s of None \<Rightarrow> [] | Some t \<Rightarrow> t)"

text \<open>\<^verbatim>\<open>a || b\<close> on values.\<close>

definition js_or :: "jsval \<Rightarrow> jsval \<Rightarrow> jsval" where
  "js_or a b = (if truthy a then a else b)"

text \<open>Reading a property of an object; a property that is not there reads \<^verbatim>\<open>undefined\<close>.\<close>

definition lookup_prop :: "jsobj \<Rightarrow> string \<Rightarrow> jsval" where
  "lookup_prop kvs k = (case map_of kvs k of None \<Rightarrow> JUndefined | Some v \<Rightarrow> v)"

text \<open>Assigning a property: an existing key keeps its place, a new key goes last.\<close>

fun set_prop :: "jsobj \<Rightarrow> string \<Rightarrow> jsval \<Rightarrow> jsobj" where
  "set_prop [] k v = [(k, v)]"
| "set_prop ((k', v') # kvs) k v =
     (if k' = k then (k, v) # kvs else (k', v') # set_prop kvs k v)"

section \<open>Responses, errors, requests\<close>

text \<open>What the \<^verbatim>\<open>'response'\<close> event delivers: the status code, the headers (node gives
  their names in lower case) and the chunks of the \<^verbatim>\<open>'data'\<close> events.\<close>

record response =
  statusCode :: nat
  headers :: "(string \<times> string) list"
  chunks :: "string list"

text \<open>A JavaScript \<^verbatim>\<open>Error\<close> object with the fields this module attaches to it.
  \<open>err_message\<close> is the argument given to the constructor.\<close>

datatype js_error =
  JsError (err_name: string) (err_message: jsval) (err_error: jsval) (err_reason: jsval)
    (err_response: "response option")

definition new_Error :: "jsval \<Rightarrow> js_error" where
  "new_Error m = JsError ''Error'' m JUndefined JUndefined None"

definition TypeError :: "string \<Rightarrow> js_error" where
  "TypeError m = JsError ''TypeError'' (JStr m) JUndefined JUndefined None"

text \<open>Reading \<^verbatim>\<open>v.k\<close>: it throws on \<^verbatim>\<open>null\<close> and \<^verbatim>\<open>undefined\<close>; on a number, boolean,
  string or array the property names used in this module are not defined.\<close>

definition get_prop :: "heap \<Rightarrow> jsval \<Rightarrow> string \<Rightarrow> js_error + jsval" where
  "get_prop h v k =
     (case v of
        JUndefined \<Rightarrow> Inl (TypeError ''Cannot read property of undefined'')
      | JNull \<Rightarrow> Inl (TypeError ''Cannot read property of null'')
      | JObj kvs \<Rightarrow> Inr (lookup_prop kvs k)
      | JRef r \<Rightarrow> Inr (lookup_prop (h r) k)
      | _ \<Rightarrow> Inr JUndefined)"

text \<open>The same read where the value is known not to be \<^verbatim>\<open>null\<close> or \<^verbatim>\<open>undefined\<close>
  (the right-hand side of \<^verbatim>\<open>data && data.error\<close>).\<close>

definition prop_of :: "heap \<Rightarrow> jsval \<Rightarrow> string \<Rightarrow> jsval" where
  "prop_of h v k = (case get_prop h v k of Inl e \<Rightarrow> JUndefined | Inr x \<Rightarrow> x)"

text \<open>The result of an asynchronous operation: the arguments its callback is called with,
  or an exception that escapes (the callback is then never called).\<close>

datatype 'a outcome = Called 'a | Thrown js_error

text \<open>The parsed base URL, \<^verbatim>\<open>this.instance\<close>. \<open>port\<close> is the string found in the URL,
  or the number the constructor puts there.\<close>

record url =
  protocol :: "string option"
  auth :: "string option"
  hostname :: "string option"
  port :: jsval
  pathname :: "string option"

text \<open>One request as given to the transport: the arguments of \<^verbatim>\<open>http.createClient\<close> and
  \<^verbatim>\<open>client.request\<close>, and the data of the calls of \<^verbatim>\<open>request.write\<close>.\<close>

record request =
  req_port :: jsval
  req_hostname :: "string option"
  req_method :: string
  req_path :: string
  req_headers :: "(string \<times> string option) list"
  req_written :: "string list"

datatype net_result = NetError js_error | NetResponse response

text \<open>
  The platform the module runs on: node's \<^verbatim>\<open>url\<close>, \<^verbatim>\<open>querystring\<close>, \<^verbatim>\<open>JSON\<close>,
  \<^verbatim>\<open>Buffer\<close> and \<^verbatim>\<open>http\<close>. None of it is code of this module, so it is a parameter.
  \<open>json_stringify\<close> returns \<open>None\<close> for \<^verbatim>\<open>undefined\<close>. \<open>transport\<close> is the remote
  end: from its state and a request it gives an \<^verbatim>\<open>'error'\<close> event or a response, and
  its next state.
\<close>

record 'srv platform =
  url_parse :: "string \<Rightarrow> url"
  querystring_stringify :: "heap \<Rightarrow> jsval \<Rightarrow> string"
  json_stringify :: "heap \<Rightarrow> jsval \<Rightarrow> js_error + string option"
  json_parse :: "string \<Rightarrow> js_error + jsval"
  base64 :: "string \<Rightarrow> string"
  transport :: "'srv \<Rightarrow> request \<Rightarrow> net_result \<times> 'srv"

text \<open>The world an operation runs in: the store of the caller's documents, the requests
  issued so far (oldest first), and the state of the remote end.\<close>

record 'srv world =
  heap :: heap
  sent :: "request list"
  server :: 'srv

section \<open>The constructor\<close>

definition CouchDB :: "'srv platform \<Rightarrow> string \<Rightarrow> url" where
  "CouchDB P db_url =
     (let ins = url_parse P db_url in
      if \<not> truthy (port ins) then
        (if protocol ins = Some ''https:'' then ins\<lparr>port := JNum 443\<rparr>
         else ins\<lparr>port := JNum 80\<rparr>)
      else ins)"

section \<open>Strings\<close>

text \<open>\<^verbatim>\<open>String.prototype.substr(start, length)\<close>: a negative start counts from the end, a
  length that is not positive gives the empty string, and the result stops at the end
  of the string.\<close>

definition substr :: "string \<Rightarrow> int \<Rightarrow> int \<Rightarrow> string" where
  "substr s start len =
     (let n = int (length s);
          b = (if start < 0 then max (n + start) 0 else start)
      in if len \<le> 0 then [] else take (nat len) (drop (nat b) s))"

text \<open>The decimal digits of a number, as \<^verbatim>\<open>'Status code: ' + response.statusCode\<close>
  prints it.\<close>

definition digit_char :: "nat \<Rightarrow> char" where
  "digit_char d = char_of (48 + d)"

fun string_of_nat :: "nat \<Rightarrow> string" where
  "string_of_nat n =
     (if n < 10 then [digit_char n] else string_of_nat (n div 10) @ [digit_char (n mod 10)])"

declare string_of_nat.simps [simp del]

text \<open>A missing string in a concatenation prints as \<^verbatim>\<open>undefined\<close>.\<close>

definition to_string :: "string option \<Rightarrow> string" where
  "to_string s = (case s of None \<Rightarrow> ''undefined'' | Some t \<Rightarrow> t)"

section \<open>The HTTP client: \<^verbatim>\<open>CouchDB.prototype.client\<close>\<close>

text \<open>Lines 94 to 102: the payload of a \<^verbatim>\<open>POST\<close> or \<^verbatim>\<open>PUT\<close> that is not a string goes
  through \<^verbatim>\<open>JSON.stringify\<close>, whose exception is the result \<open>Inl\<close>; any other payload
  stays as it is.\<close>

definition client_payload :: "'srv platform \<Rightarrow> heap \<Rightarrow> string \<Rightarrow> jsval \<Rightarrow> js_error + jsval" where
  "client_payload P h method data =
     (if method = ''POST'' \<or> method = ''PUT'' then
        (case data of
           JStr s \<Rightarrow> Inr (JStr s)
         | _ \<Rightarrow>
            (case json_stringify P h data of
               Inl e \<Rightarrow> Inl e
             | Inr None \<Rightarrow> Inr JUndefined
             | Inr (Some s) \<Rightarrow> Inr (JStr s)))
      else Inr data)"

text \<open>Lines 88 to 116 and 152 to 155: path, headers and body of the request, from the
  payload the step above has left.\<close>

definition client_request ::
  "'srv platform \<Rightarrow> url \<Rightarrow> heap \<Rightarrow> string \<Rightarrow> string \<Rightarrow> jsval \<Rightarrow> request" where
  "client_request P instance h method path0 data =
     (let path1 = or_empty (pathname instance) @ ''/'' @ path0;
          headers1 = [(''Host'', hostname instance), (''Accept'', Some ''application/json'')];
          headers2 =
            (if method = ''POST'' \<or> method = ''PUT''
             then headers1 @ [(''Content-Type'', Some ''application/json'')]
             else headers1);
          path2 =
            (if \<not> (method = ''POST'' \<or> method = ''PUT'') \<and> truthy data
             then to_string (pathname (url_parse P path1)) @ ''?'' @ querystring_stringify P h data
             else path1);
          headers3 =
            (if truthy_str (auth instance)
             then headers2 @
               [(''Authorization'', Some (''Basic '' @ base64 P (or_empty (auth instance))))]
             else headers2)
      in \<lparr>req_port = port instance, req_hostname = hostname instance,
          req_method = method, req_path = path2, req_headers = headers3,
          req_written =
            (if truthy data \<and> (method = ''POST'' \<or> method = ''PUT'')
             then (case data of JStr s \<Rightarrow> [s] | _ \<Rightarrow> [])
             else [])\<rparr>)"

text \<open>Line 130: the buffered body, parsed if any chunk arrived; the exception of
  \<^verbatim>\<open>JSON.parse\<close> is the result \<open>Inl\<close>.\<close>

definition response_data :: "'srv platform \<Rightarrow> response \<Rightarrow> js_error + jsval" where
  "response_data P response =
     (if chunks response \<noteq> [] then json_parse P (concat (chunks response)) else Inr JNull)"

text \<open>Lines 129 to 149, the handler of \<^verbatim>\<open>'end'\<close>: what the callback receives. Nothing
  catches an exception of \<^verbatim>\<open>JSON.parse\<close> there.\<close>

definition client_on_end ::
  "'srv platform \<Rightarrow> heap \<Rightarrow> response \<Rightarrow> (js_error option \<times> jsval \<times> response option) outcome" where
  "client_on_end P h response =
     (case response_data P response of
        Inl e \<Rightarrow> Thrown e
      | Inr data \<Rightarrow>
          if statusCode response \<ge> 300 then
            (if truthy data \<and> truthy (prop_of h data ''error'') then
               Called (Some (JsError ''Error''
                               (js_or (prop_of h data ''reason'') (prop_of h data ''error''))
                               (prop_of h data ''error'')
                               (prop_of h data ''reason'')
                               (Some response)),
                       data, Some response)
             else
               Called (Some (new_Error
                               (JStr (''Status code: '' @ string_of_nat (statusCode response)))),
                       data, Some response))
          else Called (None, data, Some response))"

text \<open>Lines 114 to 155: the request goes out, and the callback is called from the
  \<^verbatim>\<open>'error'\<close> event of the client or from the \<^verbatim>\<open>'end'\<close> event of the response.\<close>

definition client_send ::
  "'srv platform \<Rightarrow> url \<Rightarrow> string \<Rightarrow> string \<Rightarrow> jsval \<Rightarrow> 'srv world \<Rightarrow>
     (js_error option \<times> jsval \<times> response option) outcome \<times> 'srv world" where
  "client_send P instance method path data w =
     (let request = client_request P instance (heap w) method path data;
          (net, srv') = transport P (server w) request;
          w' = w\<lparr>sent := sent w @ [request], server := srv'\<rparr>
      in case net of
           NetError e \<Rightarrow> (Called (Some e, JUndefined, None), w')
         | NetResponse response \<Rightarrow> (client_on_end P (heap w') response, w'))"

definition client ::
  "'srv platform \<Rightarrow> url \<Rightarrow> string \<Rightarrow> string \<Rightarrow> jsval \<Rightarrow> 'srv world \<Rightarrow>
     (js_error option \<times> jsval \<times> response option) outcome \<times> 'srv world" where
  "client P instance method path data w =
     (case client_payload P (heap w) method data of
        Inl e \<Rightarrow> (Called (Some e, JUndefined, None), w)
      | Inr data' \<Rightarrow> client_send P instance method path data' w)"

section \<open>The probe: \<^verbatim>\<open>CouchDB.prototype.exists\<close>\<close>

text \<open>Lines 172 to 179, the callback given to \<^verbatim>\<open>client\<close>. With no response object
  \<^verbatim>\<open>res\<close> is \<^verbatim>\<open>{}\<close>, whose \<^verbatim>\<open>statusCode\<close> and \<^verbatim>\<open>headers\<close> are \<^verbatim>\<open>undefined\<close>.\<close>

definition exists_callback ::
  "js_error option \<times> jsval \<times> response option \<Rightarrow> (js_error option \<times> jsval \<times> jsval) outcome" where
  "exists_callback args =
     (case args of (err, data, res) \<Rightarrow>
        if map_option statusCode res \<noteq> Some 404 \<and> err \<noteq> None then
          Called (err, JUndefined, JUndefined)
        else
          (case res of
             None \<Rightarrow> Thrown (TypeError ''Cannot read property of undefined'')
           | Some r \<Rightarrow>
               (let exists = (statusCode r = 200);
                    etag = map_of (headers r) ''etag'';
                    revision = (if truthy_str etag
                           then JStr (substr (or_empty etag) 1 (int (length (or_empty etag)) - 2))
                           else JNull)
                in Called (None, JBool exists, revision))))"

definition exists ::
  "'srv platform \<Rightarrow> url \<Rightarrow> string option \<Rightarrow> 'srv world \<Rightarrow>
     (js_error option \<times> jsval \<times> jsval) outcome \<times> 'srv world" where
  "exists P instance ident w =
     (case client P instance ''HEAD'' (or_empty ident) JNull w of
        (Thrown e, w') \<Rightarrow> (Thrown e, w')
      | (Called args, w') \<Rightarrow> (exists_callback args, w'))"

section \<open>The document operations\<close>

text \<open>The second argument of the callback of \<^verbatim>\<open>ensureDB\<close>: the \<^verbatim>\<open>CouchDB\<close> object
  itself, or what \<^verbatim>\<open>client\<close> passed on.\<close>

datatype ensured = That | Data jsval

definition createDB ::
  "'srv platform \<Rightarrow> url \<Rightarrow> 'srv world \<Rightarrow>
     (js_error option \<times> jsval \<times> response option) outcome \<times> 'srv world" where
  "createDB P instance w = client P instance ''PUT'' [] JNull w"

definition ensureDB ::
  "'srv platform \<Rightarrow> url \<Rightarrow> 'srv world \<Rightarrow>
     (js_error option \<times> ensured \<times> response option) outcome \<times> 'srv world" where
  "ensureDB P instance w =
     (case exists P instance (Some []) w of
        (Thrown e, w') \<Rightarrow> (Thrown e, w')
      | (Called (err, exists', revision), w') \<Rightarrow>
          if err \<noteq> None \<or> truthy exists' then (Called (err, That, None), w')
          else
            (case createDB P instance w' of
               (Thrown e, w'') \<Rightarrow> (Thrown e, w'')
             | (Called (err', data, res), w'') \<Rightarrow> (Called (err', Data data, res), w'')))"

text \<open>\<^verbatim>\<open>get(id, data, callback)\<close>; \<open>None\<close> is the call with two arguments.\<close>

definition get ::
  "'srv platform \<Rightarrow> url \<Rightarrow> string option \<Rightarrow> jsval option \<Rightarrow> 'srv world \<Rightarrow>
     (js_error option \<times> jsval \<times> response option) outcome \<times> 'srv world" where
  "get P instance ident data w =
     client P instance ''GET'' (or_empty ident) (case data of None \<Rightarrow> JNull | Some d \<Rightarrow> d) w"

text \<open>
  \<^verbatim>\<open>save(id, doc, options, callback)\<close>. \<open>doc\<close> is the address of the caller's document in
  the store; \<open>options = None\<close> is the call without options, which takes \<^verbatim>\<open>{}\<close>.
  Lines 233 to 240 are \<open>save_write\<close>, the write of the force path and its callback.
\<close>

definition save_write ::
  "'srv platform \<Rightarrow> url \<Rightarrow> string \<Rightarrow> string \<Rightarrow> nat \<Rightarrow> 'srv world \<Rightarrow>
     (js_error option \<times> jsval \<times> response option) outcome \<times> 'srv world" where
  "save_write P instance method path doc w =
     (case client P instance method path (JRef doc) w of
        (Thrown e, w') \<Rightarrow> (Thrown e, w')
      | (Called (err, d, res), w') \<Rightarrow>
          if err \<noteq> None then (Called (err, JUndefined, None), w')
          else
            (case get_prop (heap w') d ''id'' of
               Inl e \<Rightarrow> (Thrown e, w')
             | Inr d_id \<Rightarrow>
                 (let w1 = w'\<lparr>heap := (heap w')(doc := set_prop (heap w' doc) ''_id'' d_id)\<rparr>
                  in case get_prop (heap w1) d ''rev'' of
                       Inl e \<Rightarrow> (Thrown e, w1)
                     | Inr d_rev \<Rightarrow>
                         (Called (None, JRef doc, None),
                          w1\<lparr>heap := (heap w1)(doc := set_prop (heap w1 doc) ''_rev'' d_rev)\<rparr>))))"

definition save ::
  "'srv platform \<Rightarrow> url \<Rightarrow> string option \<Rightarrow> nat \<Rightarrow> jsval option \<Rightarrow> 'srv world \<Rightarrow>
     (js_error option \<times> jsval \<times> response option) outcome \<times> 'srv world" where
  "save P instance ident doc options w =
     (let opts = (case options of None \<Rightarrow> JObj [] | Some v \<Rightarrow> v);
          method = (if truthy_str ident then ''PUT'' else ''POST'');
          path = or_empty ident
      in case get_prop (heap w) opts ''force'' of
           Inl e \<Rightarrow> (Thrown e, w)
         | Inr force \<Rightarrow>
             if truthy force then
               (case exists P instance ident w of
                  (Thrown e, w1) \<Rightarrow> (Thrown e, w1)
                | (Called (err, exists', revision), w1) \<Rightarrow>
                    if err \<noteq> None then (Called (err, JUndefined, None), w1)
                    else
                      save_write P instance method path doc
                        (if truthy exists'
                         then w1\<lparr>heap := (heap w1)(doc := set_prop (heap w1 doc) ''_rev'' revision)\<rparr>
                         else w1))
             else client P instance method path (JRef doc) w)"

text \<open>\<^verbatim>\<open>delete(id, rev, options, callback)\<close>; \<open>rev0\<close> is the caller's \<^verbatim>\<open>rev\<close>, \<open>revision\<close>
  the \<^verbatim>\<open>rev\<close> of the probe's callback, and \<open>args\<close> the local object that becomes the
  query string.\<close>

definition delete ::
  "'srv platform \<Rightarrow> url \<Rightarrow> string option \<Rightarrow> jsval \<Rightarrow> jsval option \<Rightarrow> 'srv world \<Rightarrow>
     (js_error option \<times> jsval \<times> response option) outcome \<times> 'srv world" where
  "delete P instance ident rev0 options w =
     (let opts = (case options of None \<Rightarrow> JObj [] | Some v \<Rightarrow> v);
          args = (if truthy rev0 then set_prop [] ''rev'' rev0 else []);
          path = or_empty ident
      in case get_prop (heap w) opts ''force'' of
           Inl e \<Rightarrow> (Thrown e, w)
         | Inr force \<Rightarrow>
             if truthy force then
               (case exists P instance ident w of
                  (Thrown e, w1) \<Rightarrow> (Thrown e, w1)
                | (Called (err, exists', revision), w1) \<Rightarrow>
                    if err \<noteq> None then (Called (err, JUndefined, None), w1)
                    else
                      client P instance ''DELETE'' path
                        (JObj (if truthy exists' then set_prop args ''rev'' revision else args)) w1)
             else client P instance ''DELETE'' path (JObj args) w)"

section \<open>A scripted platform for the examples\<close>

text \<open>
  The examples below run the module on a small platform: a URL parser that knows two base
  URLs, a serialiser for flat objects that rejects an object holding a reference to
  itself (as \<^verbatim>\<open>JSON.stringify\<close> rejects a circular structure), a parser that knows the
  bodies a CouchDB server answers with, and a remote end that plays back a script of
  answers, one for each request. No example configures credentials.
\<close>

definition demo_url_parse :: "string \<Rightarrow> url" where
  "demo_url_parse s =
     (if s = ''https://db.example/app'' then
        \<lparr>protocol = Some ''https:'', auth = None, hostname = Some ''db.example'',
         port = JUndefined, pathname = Some ''/app''\<rparr>
      else if s = ''http://db.example/app'' then
        \<lparr>protocol = Some ''http:'', auth = None, hostname = Some ''db.example'',
         port = JUndefined, pathname = Some ''/app''\<rparr>
      else if s = ''http://localhost:5984/db'' then
        \<lparr>protocol = Some ''http:'', auth = None, hostname = Some ''localhost'',
         port = JStr ''5984'', pathname = Some ''/db''\<rparr>
      else
        \<lparr>protocol = None, auth = None, hostname = None, port = JUndefined,
         pathname = Some s\<rparr>)"

definition quoted :: "string \<Rightarrow> string" where
  "quoted s = CHR 0x22 # s @ [CHR 0x22]"

fun join :: "string \<Rightarrow> string list \<Rightarrow> string" where
  "join sep [] = []"
| "join sep [x] = x"
| "join sep (x # y # ys) = x @ sep @ join sep (y # ys)"

fun demo_member :: "string \<times> jsval \<Rightarrow> string" where
  "demo_member (k, JStr s) = quoted k @ '':'' @ quoted s"
| "demo_member (k, v) = quoted k @ '':null''"

fun demo_pair :: "string \<times> jsval \<Rightarrow> string" where
  "demo_pair (k, JStr s) = k @ ''='' @ s"
| "demo_pair (k, v) = k @ ''=''"

definition demo_object :: "jsobj \<Rightarrow> string" where
  "demo_object kvs = ''{'' @ join '','' (map demo_member kvs) @ ''}''"

definition demo_stringify :: "heap \<Rightarrow> jsval \<Rightarrow> js_error + string option" where
  "demo_stringify h v =
     (case v of
        JUndefined \<Rightarrow> Inr None
      | JStr s \<Rightarrow> Inr (Some (quoted s))
      | JObj kvs \<Rightarrow> Inr (Some (demo_object kvs))
      | JRef r \<Rightarrow>
          if list_ex (\<lambda>kv. snd kv = JRef r) (h r)
          then Inl (TypeError ''Converting circular structure to JSON'')
          else Inr (Some (demo_object (h r)))
      | _ \<Rightarrow> Inr (Some ''null''))"

definition demo_querystring :: "heap \<Rightarrow> jsval \<Rightarrow> string" where
  "demo_querystring h v =
     (case v of
        JObj kvs \<Rightarrow> join ''&'' (map demo_pair kvs)
      | JRef r \<Rightarrow> join ''&'' (map demo_pair (h r))
      | _ \<Rightarrow> [])"

definition created_body :: string where
  \<open>created_body = ''{"ok":true,"id":"a","rev":"4-def"}''\<close>

definition conflict_body :: string where
  \<open>conflict_body = ''{"error":"conflict","reason":"Document update conflict."}''\<close>

definition ok_body :: string where
  \<open>ok_body = ''{"ok":true}''\<close>

definition empty_error_body :: string where
  \<open>empty_error_body = ''{"error":"","reason":"r"}''\<close>

definition demo_parse :: "string \<Rightarrow> js_error + jsval" where
  "demo_parse s =
     (if s = created_body then
        Inr (JObj [(''ok'', JBool True), (''id'', JStr ''a''), (''rev'', JStr ''4-def'')])
      else if s = conflict_body then
        Inr (JObj [(''error'', JStr ''conflict''),
                   (''reason'', JStr ''Document update conflict.'')])
      else if s = ok_body then Inr (JObj [(''ok'', JBool True)])
      else if s = empty_error_body then
        Inr (JObj [(''error'', JStr []), (''reason'', JStr ''r'')])
      else Inl (JsError ''SyntaxError'' (JStr ''Unexpected token'') JUndefined JUndefined None))"

definition demo_transport :: "net_result list \<Rightarrow> request \<Rightarrow> net_result \<times> net_result list" where
  "demo_transport script r =
     (case script of
        [] \<Rightarrow> (NetError (new_Error (JStr ''ECONNREFUSED'')), [])
      | x # xs \<Rightarrow> (x, xs))"

definition demo :: "net_result list platform" where
  "demo = \<lparr>url_parse = demo_url_parse, querystring_stringify = demo_querystring,
           json_stringify = demo_stringify, json_parse = demo_parse,
           base64 = (\<lambda>s. s), transport = demo_transport\<rparr>"

text \<open>The instance for \<^verbatim>\<open>http://localhost:5984/db\<close>, and a world with two documents: at
  address 0 a plain one with a stale revision, at address 1 one that holds itself.\<close>

definition demo_db :: url where
  "demo_db = CouchDB demo ''http://localhost:5984/db''"

definition demo_heap :: heap where
  "demo_heap = (\<lambda>r. [])(0 := [(''name'', JStr ''x''), (''_rev'', JStr ''1-old'')],
                         1 := [(''self'', JRef 1)])"

definition demo_world :: "net_result list \<Rightarrow> net_result list world" where
  "demo_world script = \<lparr>heap = demo_heap, sent = [], server = script\<rparr>"

text \<open>Answers of the remote end: a document written, a database created, a database that
  is there, a conflict, a document that is there with its entity tag, one that is not, one that is not but whose answer carries an entity tag all the
  same, and a failure of the server.\<close>

definition created_response :: response where
  "created_response = \<lparr>statusCode = 201, headers = [], chunks = [created_body]\<rparr>"

definition ok_response :: response where
  "ok_response = \<lparr>statusCode = 201, headers = [], chunks = [ok_body]\<rparr>"

definition database_response :: response where
  "database_response = \<lparr>statusCode = 200, headers = [], chunks = []\<rparr>"

definition conflict_response :: response where
  "conflict_response = \<lparr>statusCode = 409, headers = [], chunks = [conflict_body]\<rparr>"

definition found_response :: response where
  \<open>found_response = \<lparr>statusCode = 200, headers = [(''etag'', ''"3-abc"'')], chunks = []\<rparr>\<close>

definition missing_response :: response where
  "missing_response = \<lparr>statusCode = 404, headers = [], chunks = []\<rparr>"

definition tagged_missing_response :: response where
  \<open>tagged_missing_response = \<lparr>statusCode = 404, headers = [(''etag'', ''"1-a"'')], chunks = []\<rparr>\<close>

definition failed_response :: response where
  "failed_response = \<lparr>statusCode = 500, headers = [], chunks = []\<rparr>"

text \<open>Two more answers: a page that is not JSON under the status 200, and a failure of the
  server whose body has an empty error code.\<close>

definition html_response :: response where
  "html_response = \<lparr>statusCode = 200, headers = [], chunks = [''<html>'']\<rparr>"

definition empty_error_response :: response where
  "empty_error_response = \<lparr>statusCode = 500, headers = [], chunks = [empty_error_body]\<rparr>"

text \<open>The options \<^verbatim>\<open>{force: true}\<close>, and scripts for a forced save of a document that is
  there, for a forced save or delete of one that is not, and for two calls of
  \<^verbatim>\<open>ensureDB\<close> on a database that is not there at first.\<close>

definition force_options :: jsval where
  "force_options = JObj [(''force'', JBool True)]"

definition forced_script :: "net_result list" where
  "forced_script = [NetResponse found_response, NetResponse created_response]"

definition unforced_script :: "net_result list" where
  "unforced_script = [NetResponse missing_response, NetResponse created_response]"

definition twice_script :: "net_result list" where
  "twice_script =
     [NetResponse missing_response, NetResponse ok_response, NetResponse database_response]"

section \<open>What one call of the client does to the world\<close>

lemma client_send_response:
  assumes "transport P (server w) (client_request P instance (heap w) method path data)
             = (NetResponse response, srv')"
  shows "client_send P instance method path data w =
           (client_on_end P (heap w) response,
            w\<lparr>sent := sent w @ [client_request P instance (heap w) method path data],
              server := srv'\<rparr>)"
  using assms by (simp add: client_send_def Let_def)

lemma client_send_error:
  assumes "transport P (server w) (client_request P instance (heap w) method path data)
             = (NetError e, srv')"
  shows "client_send P instance method path data w =
           (Called (Some e, JUndefined, None),
            w\<lparr>sent := sent w @ [client_request P instance (heap w) method path data],
              server := srv'\<rparr>)"
  using assms by (simp add: client_send_def Let_def)

lemma sent_client_send:
  "sent (snd (client_send P instance method path data w)) =
     sent w @ [client_request P instance (heap w) method path data]"
  by (simp add: client_send_def Let_def split: prod.splits net_result.splits)

lemma heap_client_send:
  "heap (snd (client_send P instance method path data w)) = heap w"
  by (simp add: client_send_def Let_def split: prod.splits net_result.splits)

lemma client_not_write:
  assumes "method \<noteq> ''POST''" and "method \<noteq> ''PUT''"
  shows "client P instance method path data w = client_send P instance method path data w"
  using assms by (simp add: client_def client_payload_def)

lemma client_on_end_parsed:
  assumes "response_data P response = Inr data"
  shows "\<exists>err. client_on_end P h response = Called (err, data, Some response)
           \<and> (err = None \<longleftrightarrow> statusCode response < 300)"
  using assms by (auto simp: client_on_end_def)

lemma client_head:
  "client P instance ''HEAD'' path data w = client_send P instance ''HEAD'' path data w"
  by (simp add: client_def client_payload_def)

lemma exists_response:
  assumes "transport P (server w) (client_request P instance (heap w) ''HEAD'' (or_empty ident) JNull)
             = (NetResponse response, srv')"
    and "client_on_end P (heap w) response = Called (err, data, Some response)"
  shows "exists P instance ident w =
           (exists_callback (err, data, Some response),
            w\<lparr>sent := sent w @ [client_request P instance (heap w) ''HEAD'' (or_empty ident) JNull],
              server := srv'\<rparr>)"
  using assms by (simp add: exists_def client_head client_send_response)

lemma exists_error:
  assumes "transport P (server w) (client_request P instance (heap w) ''HEAD'' (or_empty ident) JNull)
             = (NetError e, srv')"
  shows "exists P instance ident w =
           (Called (Some e, JUndefined, JUndefined),
            w\<lparr>sent := sent w @ [client_request P instance (heap w) ''HEAD'' (or_empty ident) JNull],
              server := srv'\<rparr>)"
  using assms by (simp add: exists_def client_head client_send_error exists_callback_def)

lemma substr_strip:
  assumes "e \<noteq> []"
  shows "substr e 1 (int (length e) - 2) = butlast (tl e)"
proof (cases "length e \<le> 2")
  case True
  then have "length (tl e) \<le> 1"
    by simp
  then have "butlast (tl e) = []"
    by (cases "tl e") auto
  with True show ?thesis
    by (simp add: substr_def)
next
  case False
  then have "nat (int (length e) - 2) = length (tl e) - 1"
    by simp
  with False show ?thesis
    by (simp add: substr_def butlast_conv_take drop_Suc)
qed

lemma exists_callback_result:
  assumes "err = None \<or> statusCode response = 404"
  shows "exists_callback (err, data, Some response) =
           Called (None, JBool (statusCode response = 200),
                   (case map_of (headers response) ''etag'' of
                      None \<Rightarrow> JNull
                    | Some e \<Rightarrow> if e = [] then JNull else JStr (butlast (tl e))))"
  using assms
  by (auto simp: exists_callback_def Let_def truthy_str_def or_empty_def substr_strip
           split: option.splits)

lemma exists_callback_failure:
  assumes "err \<noteq> None" and "statusCode response \<noteq> 404"
  shows "exists_callback (err, data, Some response) = Called (err, JUndefined, JUndefined)"
  using assms by (simp add: exists_callback_def)

lemma exists_world:
  assumes "exists P instance ident w = (r, w1)"
  shows "sent w1 = sent w @ [client_request P instance (heap w) ''HEAD'' (or_empty ident) JNull]"
    and "heap w1 = heap w"
proof -
  have "w1 = snd (client_send P instance ''HEAD'' (or_empty ident) JNull w)"
    using assms by (auto simp: exists_def client_head split: prod.splits outcome.splits)
  then show "sent w1 = sent w @ [client_request P instance (heap w) ''HEAD'' (or_empty ident) JNull]"
    and "heap w1 = heap w"
    by (simp_all add: sent_client_send heap_client_send)
qed

lemma lookup_set_prop:
  "lookup_prop (set_prop obj k v) k' = (if k' = k then v else lookup_prop obj k')"
  by (induction obj) (auto simp: lookup_prop_def)

lemma sent_client:
  assumes "client_payload P (heap w) method data = Inr data'"
  shows "sent (snd (client P instance method path data w)) =
           sent w @ [client_request P instance (heap w) method path data']"
  using assms by (simp add: client_def sent_client_send)

lemma heap_client:
  "heap (snd (client P instance method path data w)) = heap w"
  by (simp add: client_def heap_client_send split: sum.splits)

lemma sent_save_write:
  "sent (snd (save_write P instance method path doc w)) =
     sent (snd (client P instance method path (JRef doc) w))"
  by (simp add: save_write_def Let_def split: prod.splits outcome.splits sum.splits)

lemma payload_of_document:
  assumes "method = ''POST'' \<or> method = ''PUT''"
    and "json_stringify P h (JRef doc) = Inr (Some body)"
  shows "client_payload P h method (JRef doc) = Inr (JStr body)"
  using assms by (auto simp: client_payload_def)

lemma save_forced:
  assumes "get_prop (heap w) opts ''force'' = Inr force" and "truthy force"
    and "exists P instance ident w = (Called (err, found, revision), w1)"
  shows "save P instance ident doc (Some opts) w =
           (if err \<noteq> None then (Called (err, JUndefined, None), w1)
            else save_write P instance (if truthy_str ident then ''PUT'' else ''POST'')
                   (or_empty ident) doc
                   (if truthy found
                    then w1\<lparr>heap := (heap w)(doc := set_prop (heap w doc) ''_rev'' revision)\<rparr>
                    else w1))"
  using assms exists_world(2) [OF assms(3)] by (simp add: save_def)

lemma delete_forced:
  assumes "get_prop (heap w) opts ''force'' = Inr force" and "truthy force"
    and "exists P instance ident w = (Called (err, found, revision), w1)"
  shows "delete P instance ident rev0 (Some opts) w =
           (if err \<noteq> None then (Called (err, JUndefined, None), w1)
            else client P instance ''DELETE'' (or_empty ident)
                   (JObj (if truthy found
                          then set_prop (if truthy rev0 then [(''rev'', rev0)] else []) ''rev'' revision
                          else (if truthy rev0 then [(''rev'', rev0)] else []))) w1)"
  using assms by (simp add: delete_def)

lemma save_unforced:
  "save P instance ident doc None w =
     client P instance (if truthy_str ident then ''PUT'' else ''POST'') (or_empty ident) (JRef doc) w"
  by (simp add: save_def get_prop_def lookup_prop_def)

lemma delete_unforced:
  "delete P instance ident rev0 None w =
     client P instance ''DELETE'' (or_empty ident)
       (JObj (if truthy rev0 then [(''rev'', rev0)] else [])) w"
  by (simp add: delete_def get_prop_def lookup_prop_def)

lemma client_request_delete:
  "client_payload P h ''DELETE'' data = Inr data"
  by (simp add: client_payload_def)

lemma status_message_500: "string_of_nat 500 = ''500''"
  by code_simp

text \<open>The definitions that the examples unfold.\<close>

lemmas client_defs =
  exists_def exists_callback_def client_def client_payload_def client_send_def
  client_request_def client_on_end_def response_data_def Let_def
  truthy_str_def or_empty_def to_string_def new_Error_def

lemmas demo_defs =
  demo_def demo_transport_def demo_world_def demo_db_def CouchDB_def demo_url_parse_def
  demo_parse_def demo_stringify_def demo_object_def demo_querystring_def quoted_def
  created_body_def conflict_body_def ok_body_def empty_error_body_def

section \<open>The constructor resolves the port\<close>

text \<open>
  C9. When the parsed base URL has no port (\<^verbatim>\<open>!ins.port\<close>: the parser left it
  undefined, null or empty), the constructor keeps every other field and sets the port to
  443 if the protocol is \<^verbatim>\<open>https:\<close> and to 80 for any other protocol. For every base
  URL the port of the constructed instance is set.
\<close>

theorem CouchDB_default_port:
  "(\<not> truthy (port (url_parse P db_url)) \<longrightarrow>
      CouchDB P db_url =
        (url_parse P db_url)\<lparr>port := (if protocol (url_parse P db_url) = Some ''https:''
                                      then JNum 443 else JNum 80)\<rparr>)
   \<and> truthy (port (CouchDB P db_url))"
  by (simp add: CouchDB_def Let_def)

theorem CouchDB_default_port_witness:
  "\<not> truthy (port (url_parse demo ''https://db.example/app''))
   \<and> port (CouchDB demo ''https://db.example/app'') = JNum 443
   \<and> \<not> truthy (port (url_parse demo ''http://db.example/app''))
   \<and> port (CouchDB demo ''http://db.example/app'') = JNum 80"
  using CouchDB_default_port [of demo "''https://db.example/app''"]
        CouchDB_default_port [of demo "''http://db.example/app''"]
  by (simp add: demo_def demo_url_parse_def)

section \<open>The payload of a write\<close>

text \<open>
  C8. When the method is \<^verbatim>\<open>POST\<close> or \<^verbatim>\<open>PUT\<close>, the payload is not a string (a string
  is never given to \<^verbatim>\<open>JSON.stringify\<close>) and \<^verbatim>\<open>JSON.stringify\<close> throws \<open>e\<close> on it, the
  callback receives \<open>e\<close> and the world is the one before the call: no request was
  added to those sent and the remote end was not reached.
\<close>

theorem client_serialization_failure:
  assumes "method = ''POST'' \<or> method = ''PUT''"
    and "\<forall>s. data \<noteq> JStr s"
    and "json_stringify P (heap w) data = Inl e"
  shows "client P instance method path data w = (Called (Some e, JUndefined, None), w)"
  using assms by (cases data) (auto simp: client_def client_payload_def)

theorem client_serialization_failure_witness:
  "json_stringify demo (heap (demo_world [])) (JRef 1)
     = Inl (TypeError ''Converting circular structure to JSON'')
   \<and> client demo demo_db ''PUT'' ''a'' (JRef 1) (demo_world [])
     = (Called (Some (TypeError ''Converting circular structure to JSON''), JUndefined, None),
        demo_world [])"
proof -
  have m: "''PUT'' = ''POST'' \<or> ''PUT'' = ''PUT''"
    by simp
  have d: "\<forall>s. JRef 1 \<noteq> JStr s"
    by simp
  have f: "json_stringify demo (heap (demo_world [])) (JRef 1)
             = Inl (TypeError ''Converting circular structure to JSON'')"
    by (simp add: demo_def demo_stringify_def demo_world_def demo_heap_def)
  from client_serialization_failure [OF m d f] f show ?thesis
    by blast
qed

text \<open>
  C10. A \<^verbatim>\<open>POST\<close> or \<^verbatim>\<open>PUT\<close> whose payload is the string \<open>s\<close> goes straight to the
  request: the result does not depend on what \<^verbatim>\<open>JSON.stringify\<close> is, one request is
  issued, and the data written to it is \<open>s\<close> (one \<^verbatim>\<open>write\<close> of \<open>s\<close>; no \<^verbatim>\<open>write\<close> at
  all when \<open>s\<close> is empty, which sends the same empty body). When the serialisation step
  fails, the payload is not a string and the failure is the exception of \<^verbatim>\<open>JSON.stringify\<close>.
\<close>

theorem client_string_payload_verbatim:
  "(method = ''POST'' \<or> method = ''PUT'' \<longrightarrow>
      client P instance method path (JStr s) w = client_send P instance method path (JStr s) w
      \<and> client (P\<lparr>json_stringify := f\<rparr>) instance method path (JStr s) w
          = client P instance method path (JStr s) w
      \<and> sent (snd (client P instance method path (JStr s) w))
          = sent w @ [client_request P instance (heap w) method path (JStr s)]
      \<and> req_written (client_request P instance (heap w) method path (JStr s))
          = (if s = [] then [] else [s])
      \<and> concat (req_written (client_request P instance (heap w) method path (JStr s))) = s)
   \<and> (client_payload P h method data = Inl e \<longrightarrow>
        (\<forall>t. data \<noteq> JStr t) \<and> json_stringify P h data = Inl e)"
proof -
  have payload: "client_payload Q h' method (JStr s) = Inr (JStr s)" for Q :: "'a platform" and h'
    by (simp add: client_payload_def)
  have a: "client Q instance method path (JStr s) w = client_send Q instance method path (JStr s) w"
    for Q :: "'a platform"
    by (simp add: client_def payload)
  have r: "client_request (P\<lparr>json_stringify := f\<rparr>) instance hp method path (JStr s)
             = client_request P instance hp method path (JStr s)" for hp
    by (simp add: client_request_def Let_def)
  have e: "client_on_end (P\<lparr>json_stringify := f\<rparr>) = client_on_end P"
    by (simp add: client_on_end_def response_data_def fun_eq_iff)
  have t: "transport (P\<lparr>json_stringify := f\<rparr>) = transport P"
    by simp
  have b: "client_send (P\<lparr>json_stringify := f\<rparr>) instance method path (JStr s) w
             = client_send P instance method path (JStr s) w"
    unfolding client_send_def r e t by (rule refl)
  have c: "method = ''POST'' \<or> method = ''PUT'' \<Longrightarrow>
             req_written (client_request P instance (heap w) method path (JStr s))
               = (if s = [] then [] else [s])"
    by (simp add: client_request_def Let_def)
  have d: "client_payload P h method data = Inl e \<Longrightarrow>
             (\<forall>t. data \<noteq> JStr t) \<and> json_stringify P h data = Inl e"
    by (cases data)
       (auto simp: client_payload_def split: if_splits sum.splits option.splits)
  show ?thesis
    using a b c d by (simp add: sent_client_send)
qed

theorem client_string_payload_verbatim_witness:
  \<open>(''PUT'' = ''POST'' \<or> ''PUT'' = ''PUT'')
   \<and> sent (snd (client demo demo_db ''PUT'' ''a'' (JStr ''{"n":1}'') (demo_world [])))
       = sent (demo_world []) @
           [client_request demo demo_db (heap (demo_world [])) ''PUT'' ''a'' (JStr ''{"n":1}'')]
   \<and> concat (req_written
         (client_request demo demo_db (heap (demo_world [])) ''PUT'' ''a'' (JStr ''{"n":1}'')))
       = ''{"n":1}''
   \<and> client_payload demo demo_heap ''PUT'' (JRef 1)
       = Inl (TypeError ''Converting circular structure to JSON'')
   \<and> (\<forall>t. JRef 1 \<noteq> JStr t)\<close>
proof -
  have m: "''PUT'' = ''POST'' \<or> ''PUT'' = ''PUT''"
    by simp
  have p: "client_payload demo demo_heap ''PUT'' (JRef 1)
             = Inl (TypeError ''Converting circular structure to JSON'')"
    by (simp add: client_payload_def demo_def demo_stringify_def demo_heap_def)
  from client_string_payload_verbatim
         [of "''PUT''" demo demo_db "''a''" _ "demo_world []" undefined demo_heap "JRef 1"
             "TypeError ''Converting circular structure to JSON''"]
       m p
  show ?thesis
    by blast
qed

section \<open>The classification of a response\<close>

text \<open>
  C2, as amended. Take a call of the client that reaches the network and gets a response
  whose body is empty or parses, to \<open>body\<close>. With a status below 300 the callback gets no
  error. With a status of 300 or more and an error code in the body (\<^verbatim>\<open>data && data.error\<close>:
  the body has an \<^verbatim>\<open>error\<close> field that JavaScript takes as true) the error carries
  \<^verbatim>\<open>error\<close> and \<^verbatim>\<open>reason\<close> of the body and the response, and its message is the reason
  or else the code. With a status of 300 or more and no such code the error carries only
  the message \<^verbatim>\<open>Status code: \<close> followed by the status in decimal. In all three cases the
  callback also gets the parsed body and the response.
\<close>

theorem client_classifies_response:
  assumes "client_payload P (heap w) method data = Inr data'"
    and "transport P (server w) (client_request P instance (heap w) method path data')
           = (NetResponse response, srv')"
    and "response_data P response = Inr body"
  shows
    "(statusCode response < 300 \<longrightarrow>
        fst (client P instance method path data w) = Called (None, body, Some response))
     \<and> (300 \<le> statusCode response \<and> truthy body \<and> truthy (prop_of (heap w) body ''error'') \<longrightarrow>
        fst (client P instance method path data w) =
          Called (Some (JsError ''Error''
                          (js_or (prop_of (heap w) body ''reason'') (prop_of (heap w) body ''error''))
                          (prop_of (heap w) body ''error'')
                          (prop_of (heap w) body ''reason'')
                          (Some response)),
                  body, Some response))
     \<and> (300 \<le> statusCode response
          \<and> \<not> (truthy body \<and> truthy (prop_of (heap w) body ''error'')) \<longrightarrow>
        fst (client P instance method path data w) =
          Called (Some (JsError ''Error''
                          (JStr (''Status code: '' @ string_of_nat (statusCode response)))
                          JUndefined JUndefined None),
                  body, Some response))"
proof -
  have "client P instance method path data w = client_send P instance method path data' w"
    using assms(1) by (simp add: client_def)
  then have "fst (client P instance method path data w) = client_on_end P (heap w) response"
    using assms(2) by (simp add: client_send_response)
  then show ?thesis
    using assms(3) by (simp add: client_on_end_def new_Error_def)
qed

theorem client_classifies_response_witness:
  "fst (client demo demo_db ''PUT'' ''a'' (JRef 0) (demo_world [NetResponse created_response]))
     = Called (None,
               JObj [(''ok'', JBool True), (''id'', JStr ''a''), (''rev'', JStr ''4-def'')],
               Some created_response)
   \<and> fst (client demo demo_db ''PUT'' ''a'' (JRef 0) (demo_world [NetResponse conflict_response]))
     = Called (Some (JsError ''Error'' (JStr ''Document update conflict.'') (JStr ''conflict'')
                       (JStr ''Document update conflict.'') (Some conflict_response)),
               JObj [(''error'', JStr ''conflict''), (''reason'', JStr ''Document update conflict.'')],
               Some conflict_response)
   \<and> fst (client demo demo_db ''PUT'' ''a'' (JRef 0) (demo_world [NetResponse failed_response]))
     = Called (Some (JsError ''Error'' (JStr ''Status code: 500'') JUndefined JUndefined None),
               JNull, Some failed_response)"
proof -
  let ?conflict = "JObj [(''error'', JStr ''conflict''), (''reason'', JStr ''Document update conflict.'')]"
  let ?created = "JObj [(''ok'', JBool True), (''id'', JStr ''a''), (''rev'', JStr ''4-def'')]"
  have p: "client_payload demo (heap (demo_world s)) ''PUT'' (JRef 0)
             = Inr (JStr (demo_object (demo_heap 0)))" for s
    by (simp add: client_payload_def demo_def demo_stringify_def demo_world_def demo_heap_def)
  have t: "transport demo (server (demo_world [NetResponse r]))
             (client_request demo demo_db (heap (demo_world [NetResponse r])) ''PUT'' ''a''
                (JStr (demo_object (demo_heap 0))))
             = (NetResponse r, [])" for r
    by (simp add: demo_def demo_transport_def demo_world_def)
  have b1: "response_data demo created_response = Inr ?created"
    by (simp add: response_data_def created_response_def demo_def demo_parse_def)
  have b2: "response_data demo conflict_response = Inr ?conflict"
    by (simp add: response_data_def conflict_response_def demo_def demo_parse_def
          created_body_def conflict_body_def)
  have b3: "response_data demo failed_response = Inr JNull"
    by (simp add: response_data_def failed_response_def)
  have s1: "statusCode created_response < 300"
    by (simp add: created_response_def)
  have s2: "300 \<le> statusCode conflict_response \<and> truthy ?conflict
             \<and> truthy (prop_of (heap (demo_world [NetResponse conflict_response])) ?conflict ''error'')"
    by (simp add: conflict_response_def prop_of_def get_prop_def lookup_prop_def)
  have s3: "300 \<le> statusCode failed_response
             \<and> \<not> (truthy JNull
                   \<and> truthy (prop_of (heap (demo_world [NetResponse failed_response])) JNull ''error''))"
    by (simp add: failed_response_def)
  from client_classifies_response [OF p t b1] s1
  have c1: "fst (client demo demo_db ''PUT'' ''a'' (JRef 0) (demo_world [NetResponse created_response]))
              = Called (None, ?created, Some created_response)"
    by blast
  from client_classifies_response [OF p t b2] s2
  have "fst (client demo demo_db ''PUT'' ''a'' (JRef 0) (demo_world [NetResponse conflict_response])) =
          Called (Some (JsError ''Error''
                          (js_or (prop_of (heap (demo_world [NetResponse conflict_response])) ?conflict ''reason'')
                                 (prop_of (heap (demo_world [NetResponse conflict_response])) ?conflict ''error''))
                          (prop_of (heap (demo_world [NetResponse conflict_response])) ?conflict ''error'')
                          (prop_of (heap (demo_world [NetResponse conflict_response])) ?conflict ''reason'')
                          (Some conflict_response)),
                  ?conflict, Some conflict_response)"
    by blast
  then have c2: "fst (client demo demo_db ''PUT'' ''a'' (JRef 0) (demo_world [NetResponse conflict_response]))
              = Called (Some (JsError ''Error'' (JStr ''Document update conflict.'') (JStr ''conflict'')
                                (JStr ''Document update conflict.'') (Some conflict_response)),
                        ?conflict, Some conflict_response)"
    by (simp add: prop_of_def get_prop_def lookup_prop_def js_or_def)
  from client_classifies_response [OF p t b3] s3
  have "fst (client demo demo_db ''PUT'' ''a'' (JRef 0) (demo_world [NetResponse failed_response])) =
          Called (Some (JsError ''Error''
                          (JStr (''Status code: '' @ string_of_nat (statusCode failed_response)))
                          JUndefined JUndefined None),
                  JNull, Some failed_response)"
    by blast
  then have c3: "fst (client demo demo_db ''PUT'' ''a'' (JRef 0) (demo_world [NetResponse failed_response]))
              = Called (Some (JsError ''Error'' (JStr ''Status code: 500'') JUndefined JUndefined None),
                        JNull, Some failed_response)"
    by (simp add: failed_response_def status_message_500)
  from c1 c2 c3 show ?thesis
    by blast
qed

text \<open>
  C2 as stated speaks of every completed response and of every body that contains an error
  field. A response with the status 200 whose body is the page \<^verbatim>\<open><html>\<close> gives the
  callback nothing: \<^verbatim>\<open>JSON.parse\<close> throws in the handler of \<^verbatim>\<open>'end'\<close>. A response with
  the status 500 whose body has the error field \<^verbatim>\<open>""\<close> and the reason \<^verbatim>\<open>r\<close> gives the
  error that carries only the status, not the code and reason of the body.
\<close>

theorem client_classification_counterexample:
  "statusCode html_response = 200
   \<and> fst (client demo demo_db ''GET'' ''a'' JNull (demo_world [NetResponse html_response]))
     = Thrown (JsError ''SyntaxError'' (JStr ''Unexpected token'') JUndefined JUndefined None)
   \<and> statusCode empty_error_response = 500
   \<and> response_data demo empty_error_response
     = Inr (JObj [(''error'', JStr []), (''reason'', JStr ''r'')])
   \<and> fst (client demo demo_db ''GET'' ''a'' JNull (demo_world [NetResponse empty_error_response]))
     = Called (Some (JsError ''Error'' (JStr ''Status code: 500'') JUndefined JUndefined None),
               JObj [(''error'', JStr []), (''reason'', JStr ''r'')],
               Some empty_error_response)"
proof -
  have h: "fst (client demo demo_db ''GET'' ''a'' JNull (demo_world [NetResponse html_response]))
             = Thrown (JsError ''SyntaxError'' (JStr ''Unexpected token'') JUndefined JUndefined None)"
    by (simp add: client_defs demo_defs html_response_def)
  have b: "response_data demo empty_error_response
             = Inr (JObj [(''error'', JStr []), (''reason'', JStr ''r'')])"
    by (simp add: response_data_def empty_error_response_def demo_defs)
  have e: "fst (client demo demo_db ''GET'' ''a'' JNull (demo_world [NetResponse empty_error_response]))
             = Called (Some (JsError ''Error'' (JStr ''Status code: 500'') JUndefined JUndefined None),
                       JObj [(''error'', JStr []), (''reason'', JStr ''r'')],
                       Some empty_error_response)"
    by (simp add: client_defs demo_defs empty_error_response_def prop_of_def get_prop_def
          lookup_prop_def status_message_500)
  from h b e show ?thesis
    by (simp add: html_response_def empty_error_response_def)
qed

section \<open>The probe\<close>

text \<open>
  C4. When the probe gets a response and returns a result (the status is below 300, or
  404; the body, which a response to \<^verbatim>\<open>HEAD\<close> does not have, is empty or parses), the
  flag is true exactly when the status is 200, and the revision is the value of the
  \<^verbatim>\<open>etag\<close> header without its first and last character, or \<^verbatim>\<open>null\<close> when the response
  has no such header (an empty value counts as none).
\<close>

theorem exists_flag_and_revision:
  assumes "transport P (server w)
             (client_request P instance (heap w) ''HEAD'' (or_empty ident) JNull)
             = (NetResponse response, srv')"
    and "response_data P response = Inr body"
    and "statusCode response < 300 \<or> statusCode response = 404"
  shows "fst (exists P instance ident w) =
           Called (None, JBool (statusCode response = 200),
                   (case map_of (headers response) ''etag'' of
                      None \<Rightarrow> JNull
                    | Some e \<Rightarrow> if e = [] then JNull else JStr (butlast (tl e))))"
proof -
  from client_on_end_parsed [OF assms(2)] obtain err where
    e: "client_on_end P (heap w) response = Called (err, body, Some response)"
    and n: "err = None \<longleftrightarrow> statusCode response < 300"
    by blast
  from n assms(3) have "err = None \<or> statusCode response = 404"
    by blast
  then show ?thesis
    using exists_response [OF assms(1) e] by (simp add: exists_callback_result)
qed

theorem exists_flag_and_revision_witness:
  \<open>fst (exists demo demo_db (Some ''a'') (demo_world [NetResponse found_response]))
     = Called (None, JBool True, JStr ''3-abc'')\<close>
proof -
  let ?w = "demo_world [NetResponse found_response]"
  have t: "transport demo (server ?w)
             (client_request demo demo_db (heap ?w) ''HEAD'' (or_empty (Some ''a'')) JNull)
             = (NetResponse found_response, [])"
    by (simp add: demo_def demo_transport_def demo_world_def)
  have b: "response_data demo found_response = Inr JNull"
    by (simp add: response_data_def found_response_def)
  have s: "statusCode found_response < 300 \<or> statusCode found_response = 404"
    by (simp add: found_response_def)
  from exists_flag_and_revision [OF t b s] show ?thesis
    by (simp add: found_response_def)
qed

text \<open>
  C5, as amended. A status of 404 is not an error for the probe: the result has no error
  and the flag false, and its revision is read from the \<^verbatim>\<open>etag\<close> header as for any other
  response, so it is \<^verbatim>\<open>null\<close> when the response has no such header. Any other status of
  300 or more gives the callback an error, and so does an \<^verbatim>\<open>'error'\<close> event of the
  transport.
\<close>

theorem exists_not_found_is_no_error:
  "(transport P (server w) (client_request P instance (heap w) ''HEAD'' (or_empty ident) JNull)
      = (NetResponse response, srv')
    \<and> response_data P response = Inr body \<and> statusCode response = 404 \<longrightarrow>
      fst (exists P instance ident w) =
        Called (None, JBool False,
                (case map_of (headers response) ''etag'' of
                   None \<Rightarrow> JNull
                 | Some e \<Rightarrow> if e = [] then JNull else JStr (butlast (tl e)))))
   \<and> (transport P (server w) (client_request P instance (heap w) ''HEAD'' (or_empty ident) JNull)
        = (NetResponse response, srv')
      \<and> response_data P response = Inr body
      \<and> 300 \<le> statusCode response \<and> statusCode response \<noteq> 404 \<longrightarrow>
        (\<exists>e. fst (exists P instance ident w) = Called (Some e, JUndefined, JUndefined)))
   \<and> (transport P (server w) (client_request P instance (heap w) ''HEAD'' (or_empty ident) JNull)
        = (NetError e', srv') \<longrightarrow>
        fst (exists P instance ident w) = Called (Some e', JUndefined, JUndefined))"
proof (intro conjI impI)
  assume a: "transport P (server w)
               (client_request P instance (heap w) ''HEAD'' (or_empty ident) JNull)
               = (NetResponse response, srv')
             \<and> response_data P response = Inr body \<and> statusCode response = 404"
  then have t: "transport P (server w)
                  (client_request P instance (heap w) ''HEAD'' (or_empty ident) JNull)
                  = (NetResponse response, srv')"
    and b: "response_data P response = Inr body" and s: "statusCode response = 404"
    by simp_all
  from client_on_end_parsed [OF b] obtain err where
    e: "client_on_end P (heap w) response = Called (err, body, Some response)"
    by blast
  from s show "fst (exists P instance ident w) =
        Called (None, JBool False,
                (case map_of (headers response) ''etag'' of
                   None \<Rightarrow> JNull
                 | Some e \<Rightarrow> if e = [] then JNull else JStr (butlast (tl e))))"
    by (simp add: exists_response [OF t e] exists_callback_result)
next
  assume a: "transport P (server w)
               (client_request P instance (heap w) ''HEAD'' (or_empty ident) JNull)
               = (NetResponse response, srv')
             \<and> response_data P response = Inr body
             \<and> 300 \<le> statusCode response \<and> statusCode response \<noteq> 404"
  then have t: "transport P (server w)
                  (client_request P instance (heap w) ''HEAD'' (or_empty ident) JNull)
                  = (NetResponse response, srv')"
    and b: "response_data P response = Inr body"
    and s: "300 \<le> statusCode response" "statusCode response \<noteq> 404"
    by simp_all
  from client_on_end_parsed [OF b] obtain err where
    e: "client_on_end P (heap w) response = Called (err, body, Some response)"
    and n: "err = None \<longleftrightarrow> statusCode response < 300"
    by blast
  from s n obtain x where x: "err = Some x"
    by (cases err) auto
  from s x show "\<exists>e. fst (exists P instance ident w) = Called (Some e, JUndefined, JUndefined)"
    by (simp add: exists_response [OF t e] exists_callback_failure)
next
  assume "transport P (server w)
            (client_request P instance (heap w) ''HEAD'' (or_empty ident) JNull)
            = (NetError e', srv')"
  then show "fst (exists P instance ident w) = Called (Some e', JUndefined, JUndefined)"
    by (simp add: exists_error)
qed

theorem exists_not_found_is_no_error_witness:
  "fst (exists demo demo_db (Some ''a'') (demo_world [NetResponse missing_response]))
     = Called (None, JBool False, JNull)
   \<and> (\<exists>e. fst (exists demo demo_db (Some ''a'') (demo_world [NetResponse failed_response]))
             = Called (Some e, JUndefined, JUndefined))
   \<and> fst (exists demo demo_db (Some ''a'') (demo_world []))
     = Called (Some (new_Error (JStr ''ECONNREFUSED'')), JUndefined, JUndefined)"
proof -
  have t: "transport demo (server (demo_world (x # xs)))
             (client_request demo demo_db (heap (demo_world (x # xs))) ''HEAD''
                (or_empty (Some ''a'')) JNull)
             = (x, xs)" for x xs
    by (simp add: demo_def demo_transport_def demo_world_def)
  have t0: "transport demo (server (demo_world []))
             (client_request demo demo_db (heap (demo_world [])) ''HEAD''
                (or_empty (Some ''a'')) JNull)
             = (NetError (new_Error (JStr ''ECONNREFUSED'')), [])"
    by (simp add: demo_def demo_transport_def demo_world_def)
  have b1: "response_data demo missing_response = Inr JNull"
    by (simp add: response_data_def missing_response_def)
  have b2: "response_data demo failed_response = Inr JNull"
    by (simp add: response_data_def failed_response_def)
  have s1: "statusCode missing_response = 404"
    by (simp add: missing_response_def)
  have s2: "300 \<le> statusCode failed_response \<and> statusCode failed_response \<noteq> 404"
    by (simp add: failed_response_def)
  have h1: "map_of (headers missing_response) ''etag'' = None"
    by (simp add: missing_response_def)
  from exists_not_found_is_no_error
         [of demo "demo_world [NetResponse missing_response]" demo_db "Some ''a''"
             missing_response "[]" JNull]
       t b1 s1 h1
  have c1: "fst (exists demo demo_db (Some ''a'') (demo_world [NetResponse missing_response]))
              = Called (None, JBool False, JNull)"
    by simp
  from exists_not_found_is_no_error
         [of demo "demo_world [NetResponse failed_response]" demo_db "Some ''a''"
             failed_response "[]" JNull]
       t b2 s2
  have c2: "\<exists>e. fst (exists demo demo_db (Some ''a'') (demo_world [NetResponse failed_response]))
              = Called (Some e, JUndefined, JUndefined)"
    by blast
  from exists_not_found_is_no_error
         [of demo "demo_world []" demo_db "Some ''a''" _ "[]" _ "new_Error (JStr ''ECONNREFUSED'')"]
       t0
  have c3: "fst (exists demo demo_db (Some ''a'') (demo_world []))
              = Called (Some (new_Error (JStr ''ECONNREFUSED'')), JUndefined, JUndefined)"
    by blast
  from c1 c2 c3 show ?thesis
    by blast
qed

text \<open>
  C5 as stated gives the revision \<^verbatim>\<open>null\<close> for every 404. A 404 whose response carries
  the entity tag \<^verbatim>\<open>"1-a"\<close> yields the revision \<^verbatim>\<open>1-a\<close>.
\<close>

theorem exists_not_found_revision_counterexample:
  \<open>statusCode tagged_missing_response = 404
   \<and> fst (exists demo demo_db (Some ''a'') (demo_world [NetResponse tagged_missing_response]))
       = Called (None, JBool False, JStr ''1-a'')
   \<and> fst (exists demo demo_db (Some ''a'') (demo_world [NetResponse tagged_missing_response]))
       \<noteq> Called (None, JBool False, JNull)\<close>
  by (simp add: exists_def client_def client_payload_def client_send_def client_request_def
        client_on_end_def response_data_def exists_callback_def Let_def
        demo_def demo_transport_def demo_world_def demo_db_def CouchDB_def demo_url_parse_def
        tagged_missing_response_def truthy_str_def or_empty_def substr_def new_Error_def)

section \<open>Creating the database once\<close>

text \<open>
  C7. \<^verbatim>\<open>ensureDB\<close> starts with the probe of the root path, a \<^verbatim>\<open>HEAD\<close> request that is
  the only request issued up to the callback of the probe. When the probe reports an error
  or that the database is there, the callback of \<^verbatim>\<open>ensureDB\<close> gets that outcome in the
  world the probe has left, so no request to create the database was issued. Only when
  the probe reports no error and that the database is not there does \<^verbatim>\<open>ensureDB\<close> go on
  with \<^verbatim>\<open>createDB\<close>. So a second call, whose probe finds the database the first call
  has created, succeeds without trying to create it again.
\<close>

theorem ensureDB_probes_then_creates:
  assumes "exists P instance (Some []) w = (Called (err, found, revision), w1)"
  shows
    "sent w1 = sent w @ [client_request P instance (heap w) ''HEAD'' [] JNull]
     \<and> (err \<noteq> None \<or> truthy found \<longrightarrow>
          ensureDB P instance w = (Called (err, That, None), w1))
     \<and> (err = None \<and> \<not> truthy found \<longrightarrow>
          ensureDB P instance w =
            (case createDB P instance w1 of
               (Thrown e, w2) \<Rightarrow> (Thrown e, w2)
             | (Called (err', data, res), w2) \<Rightarrow> (Called (err', Data data, res), w2)))"
  using assms exists_world(1) [OF assms]
  by (simp add: ensureDB_def or_empty_def)

theorem ensureDB_probes_then_creates_witness:
  "fst (ensureDB demo demo_db (demo_world twice_script))
     = Called (None, Data (JObj [(''ok'', JBool True)]), Some ok_response)
   \<and> map req_method (sent (snd (ensureDB demo demo_db (demo_world twice_script))))
     = [''HEAD'', ''PUT'']
   \<and> fst (ensureDB demo demo_db (snd (ensureDB demo demo_db (demo_world twice_script))))
     = Called (None, That, None)
   \<and> map req_method
        (sent (snd (ensureDB demo demo_db (snd (ensureDB demo demo_db (demo_world twice_script))))))
     = [''HEAD'', ''PUT'', ''HEAD'']"
proof -
  let ?head = "client_request demo demo_db demo_heap ''HEAD'' [] JNull"
  let ?put = "client_request demo demo_db demo_heap ''PUT'' [] (JStr ''null'')"
  let ?w1 = "\<lparr>heap = demo_heap, sent = [?head],
              server = [NetResponse ok_response, NetResponse database_response]\<rparr>"
  let ?w2 = "\<lparr>heap = demo_heap, sent = [?head, ?put],
              server = [NetResponse database_response]\<rparr>"
  let ?w3 = "\<lparr>heap = demo_heap, sent = [?head, ?put, ?head],
              server = ([] :: net_result list)\<rparr>"
  have e1: "exists demo demo_db (Some []) (demo_world twice_script)
              = (Called (None, JBool False, JNull), ?w1)"
    by (simp add: client_defs demo_defs twice_script_def missing_response_def)
  have c: "createDB demo demo_db ?w1
             = (Called (None, JObj [(''ok'', JBool True)], Some ok_response), ?w2)"
    by (simp add: createDB_def client_defs demo_defs ok_response_def)
  have e2: "exists demo demo_db (Some []) ?w2 = (Called (None, JBool True, JNull), ?w3)"
    by (simp add: client_defs demo_defs database_response_def)
  from ensureDB_probes_then_creates [OF e1] c
  have r1: "ensureDB demo demo_db (demo_world twice_script)
              = (Called (None, Data (JObj [(''ok'', JBool True)]), Some ok_response), ?w2)"
    by simp
  from ensureDB_probes_then_creates [OF e2]
  have r2: "ensureDB demo demo_db ?w2 = (Called (None, That, None), ?w3)"
    by simp
  have m: "map req_method [?head, ?put, ?head] = [''HEAD'', ''PUT'', ''HEAD'']"
    by (simp add: client_request_def Let_def)
  from r1 r2 m show ?thesis
    by simp
qed

section \<open>Saving and deleting with \<^verbatim>\<open>force\<close>\<close>

text \<open>
  C1. Take a call of \<^verbatim>\<open>save\<close> whose options have a true \<^verbatim>\<open>force\<close>. When the probe
  reports no error, that the document is there, and the revision \<open>R\<close>, the document is
  written from a store in which its \<^verbatim>\<open>_rev\<close> is \<open>R\<close>, whatever it was before: the call
  is the write of lines 233 to 240 in that store, and when \<^verbatim>\<open>JSON.stringify\<close> gives
  \<open>body\<close> for the document in that store, the requests issued are the probe and then the
  write with \<open>body\<close>. When the probe reports an error, the callback of \<^verbatim>\<open>save\<close> gets
  that error, and the only request issued is the probe.
\<close>

theorem save_force_writes_probed_revision:
  assumes "get_prop (heap w) opts ''force'' = Inr force" and "truthy force"
  shows
    "(exists P instance ident w = (Called (None, found, R), w1) \<and> truthy found \<longrightarrow>
        lookup_prop (((heap w)(doc := set_prop (heap w doc) ''_rev'' R)) doc) ''_rev'' = R
        \<and> save P instance ident doc (Some opts) w =
            save_write P instance (if truthy_str ident then ''PUT'' else ''POST'') (or_empty ident) doc
              (w1\<lparr>heap := (heap w)(doc := set_prop (heap w doc) ''_rev'' R)\<rparr>)
        \<and> (\<forall>body.
              json_stringify P ((heap w)(doc := set_prop (heap w doc) ''_rev'' R)) (JRef doc)
                = Inr (Some body) \<longrightarrow>
              sent (snd (save P instance ident doc (Some opts) w)) =
                sent w @
                [client_request P instance (heap w) ''HEAD'' (or_empty ident) JNull,
                 client_request P instance ((heap w)(doc := set_prop (heap w doc) ''_rev'' R))
                   (if truthy_str ident then ''PUT'' else ''POST'') (or_empty ident) (JStr body)]))
     \<and> (exists P instance ident w = (Called (Some e, x, y), w1) \<longrightarrow>
          save P instance ident doc (Some opts) w = (Called (Some e, JUndefined, None), w1)
          \<and> sent w1 = sent w @ [client_request P instance (heap w) ''HEAD'' (or_empty ident) JNull])"
proof (intro conjI impI allI)
  assume a: "exists P instance ident w = (Called (None, found, R), w1) \<and> truthy found"
  then have ex: "exists P instance ident w = (Called (None, found, R), w1)" and f: "truthy found"
    by simp_all
  let ?h = "(heap w)(doc := set_prop (heap w doc) ''_rev'' R)"
  let ?m = "if truthy_str ident then ''PUT'' else ''POST''"
  show "lookup_prop (?h doc) ''_rev'' = R"
    by (simp add: lookup_set_prop)
  show s: "save P instance ident doc (Some opts) w =
             save_write P instance ?m (or_empty ident) doc (w1\<lparr>heap := ?h\<rparr>)"
    using save_forced [OF assms ex] f by simp
  fix body
  assume j: "json_stringify P ?h (JRef doc) = Inr (Some body)"
  have "client_payload P (heap (w1\<lparr>heap := ?h\<rparr>)) ?m (JRef doc) = Inr (JStr body)"
    using j by (simp add: payload_of_document)
  then have "sent (snd (client P instance ?m (or_empty ident) (JRef doc) (w1\<lparr>heap := ?h\<rparr>))) =
               sent w1 @ [client_request P instance ?h ?m (or_empty ident) (JStr body)]"
    using sent_client [of P "w1\<lparr>heap := ?h\<rparr>" "?m" "JRef doc" "JStr body" "instance" "or_empty ident"]
    by simp
  then show "sent (snd (save P instance ident doc (Some opts) w)) =
               sent w @
               [client_request P instance (heap w) ''HEAD'' (or_empty ident) JNull,
                client_request P instance ?h ?m (or_empty ident) (JStr body)]"
    using exists_world(1) [OF ex] by (simp add: s sent_save_write)
next
  assume ex: "exists P instance ident w = (Called (Some e, x, y), w1)"
  show "save P instance ident doc (Some opts) w = (Called (Some e, JUndefined, None), w1)"
    using save_forced [OF assms ex] by simp
  show "sent w1 = sent w @ [client_request P instance (heap w) ''HEAD'' (or_empty ident) JNull]"
    using exists_world(1) [OF ex] .
qed

theorem save_force_writes_probed_revision_witness:
  \<open>lookup_prop (demo_heap 0) ''_rev'' = JStr ''1-old''
   \<and> map (\<lambda>r. (req_method r, req_path r, req_written r))
        (sent (snd (save demo demo_db (Some ''a'') 0 (Some force_options) (demo_world forced_script))))
     = [(''HEAD'', ''/db/a'', []),
        (''PUT'', ''/db/a'', [''{"name":"x","_rev":"3-abc"}''])]
   \<and> save demo demo_db (Some ''a'') 0 (Some force_options) (demo_world [])
     = (Called (Some (new_Error (JStr ''ECONNREFUSED'')), JUndefined, None),
        \<lparr>heap = demo_heap,
         sent = [client_request demo demo_db demo_heap ''HEAD'' ''a'' JNull],
         server = []\<rparr>)\<close>
proof -
  let ?h = "demo_heap(0 := set_prop (demo_heap 0) ''_rev'' (JStr ''3-abc''))"
  let ?head = "client_request demo demo_db demo_heap ''HEAD'' ''a'' JNull"
  let ?w1 = "\<lparr>heap = demo_heap, sent = [?head], server = [NetResponse created_response]\<rparr>"
  let ?w0 = "\<lparr>heap = demo_heap, sent = [?head], server = ([] :: net_result list)\<rparr>"
  have f: "get_prop (heap (demo_world s)) force_options ''force'' = Inr (JBool True)" for s
    by (simp add: get_prop_def lookup_prop_def force_options_def)
  have t: "truthy (JBool True)"
    by simp
  have e1: "exists demo demo_db (Some ''a'') (demo_world forced_script)
              = (Called (None, JBool True, JStr ''3-abc''), ?w1)"
    by (simp add: client_defs demo_defs forced_script_def found_response_def substr_def)
  have e0: "exists demo demo_db (Some ''a'') (demo_world [])
              = (Called (Some (new_Error (JStr ''ECONNREFUSED'')), JUndefined, JUndefined), ?w0)"
    by (simp add: client_defs demo_defs)
  have j: \<open>json_stringify demo ((heap (demo_world forced_script))
               (0 := set_prop (heap (demo_world forced_script) 0) ''_rev'' (JStr ''3-abc'')))
             (JRef 0) = Inr (Some ''{"name":"x","_rev":"3-abc"}'')\<close>
    by (simp add: demo_defs demo_heap_def)
  have r: "lookup_prop (demo_heap 0) ''_rev'' = JStr ''1-old''"
    by (simp add: demo_heap_def lookup_prop_def)
  note thm1 = save_force_writes_probed_revision
                [where w = "demo_world forced_script" and opts = force_options
                   and force = "JBool True" and P = demo and ?instance = demo_db
                   and ident = "Some ''a''" and found = "JBool True" and R = "JStr ''3-abc''"
                   and ?w1.0 = "?w1" and doc = 0, OF f t]
  note thm0 = save_force_writes_probed_revision
                [where w = "demo_world []" and opts = force_options
                   and force = "JBool True" and P = demo and ?instance = demo_db
                   and ident = "Some ''a''" and ?w1.0 = "?w0" and doc = 0
                   and e = "new_Error (JStr ''ECONNREFUSED'')" and x = JUndefined
                   and y = JUndefined, OF f t]
  from thm1 e1 j t
  have s1: \<open>sent (snd (save demo demo_db (Some ''a'') 0 (Some force_options) (demo_world forced_script)))
             = sent (demo_world forced_script) @
               [client_request demo demo_db (heap (demo_world forced_script)) ''HEAD''
                  (or_empty (Some ''a'')) JNull,
                client_request demo demo_db
                  ((heap (demo_world forced_script))
                     (0 := set_prop (heap (demo_world forced_script) 0) ''_rev'' (JStr ''3-abc'')))
                  (if truthy_str (Some ''a'') then ''PUT'' else ''POST'') (or_empty (Some ''a''))
                  (JStr ''{"name":"x","_rev":"3-abc"}'')]\<close>
    by blast
  from thm0 e0
  have s0: "save demo demo_db (Some ''a'') 0 (Some force_options) (demo_world [])
              = (Called (Some (new_Error (JStr ''ECONNREFUSED'')), JUndefined, None), ?w0)"
    by blast
  from s1 s0 r show ?thesis
    by (simp add: client_request_def Let_def demo_defs truthy_str_def or_empty_def)
qed

text \<open>
  C6. Take a call of \<^verbatim>\<open>save\<close> or \<^verbatim>\<open>delete\<close> whose options have a true \<^verbatim>\<open>force\<close>, and
  whose probe reports no error and that the document is not there. The store is the one
  before the call, so the document still has the revision the caller gave it, and the
  write of \<^verbatim>\<open>save\<close> is issued after the probe with the payload made from that store:
  the same request as the call without \<^verbatim>\<open>force\<close> issues. The request of \<^verbatim>\<open>delete\<close> is
  issued after the probe with the query made from the caller's \<^verbatim>\<open>rev\<close> (from no
  revision when the caller gave none): again the same request as without \<^verbatim>\<open>force\<close>.
\<close>

theorem force_keeps_revision_when_missing:
  assumes "get_prop (heap w) opts ''force'' = Inr force" and "truthy force"
    and "exists P instance ident w = (Called (None, found, revision), w1)"
    and "\<not> truthy found"
  shows
    "heap w1 = heap w
     \<and> save P instance ident doc (Some opts) w =
         save_write P instance (if truthy_str ident then ''PUT'' else ''POST'') (or_empty ident) doc w1
     \<and> (\<forall>data'.
           client_payload P (heap w) (if truthy_str ident then ''PUT'' else ''POST'') (JRef doc)
             = Inr data' \<longrightarrow>
           sent (snd (save P instance ident doc (Some opts) w)) =
             sent w @
             [client_request P instance (heap w) ''HEAD'' (or_empty ident) JNull,
              client_request P instance (heap w) (if truthy_str ident then ''PUT'' else ''POST'')
                (or_empty ident) data']
           \<and> sent (snd (save P instance ident doc None w)) =
             sent w @
             [client_request P instance (heap w) (if truthy_str ident then ''PUT'' else ''POST'')
                (or_empty ident) data'])
     \<and> delete P instance ident rev0 (Some opts) w =
         client P instance ''DELETE'' (or_empty ident)
           (JObj (if truthy rev0 then [(''rev'', rev0)] else [])) w1
     \<and> sent (snd (delete P instance ident rev0 (Some opts) w)) =
         sent w @
         [client_request P instance (heap w) ''HEAD'' (or_empty ident) JNull,
          client_request P instance (heap w) ''DELETE'' (or_empty ident)
            (JObj (if truthy rev0 then [(''rev'', rev0)] else []))]
     \<and> sent (snd (delete P instance ident rev0 None w)) =
         sent w @
         [client_request P instance (heap w) ''DELETE'' (or_empty ident)
            (JObj (if truthy rev0 then [(''rev'', rev0)] else []))]"
proof -
  let ?m = "if truthy_str ident then ''PUT'' else ''POST''"
  let ?args = "JObj (if truthy rev0 then [(''rev'', rev0)] else [])"
  let ?head = "client_request P instance (heap w) ''HEAD'' (or_empty ident) JNull"
  note w1 = exists_world [OF assms(3)]
  have s: "save P instance ident doc (Some opts) w = save_write P instance ?m (or_empty ident) doc w1"
    using save_forced [OF assms(1,2,3)] assms(4) by simp
  have sf: "sent (snd (save P instance ident doc (Some opts) w)) =
              sent w @ [?head, client_request P instance (heap w) ?m (or_empty ident) data']"
    and su: "sent (snd (save P instance ident doc None w)) =
              sent w @ [client_request P instance (heap w) ?m (or_empty ident) data']"
    if p: "client_payload P (heap w) ?m (JRef doc) = Inr data'" for data'
  proof -
    from p have "client_payload P (heap w1) ?m (JRef doc) = Inr data'"
      by (simp add: w1)
    from sent_client [OF this]
    show "sent (snd (save P instance ident doc (Some opts) w)) =
            sent w @ [?head, client_request P instance (heap w) ?m (or_empty ident) data']"
      by (simp add: s sent_save_write w1)
    from sent_client [OF p]
    show "sent (snd (save P instance ident doc None w)) =
            sent w @ [client_request P instance (heap w) ?m (or_empty ident) data']"
      by (simp add: save_unforced)
  qed
  have d: "delete P instance ident rev0 (Some opts) w =
             client P instance ''DELETE'' (or_empty ident) ?args w1"
    using delete_forced [OF assms(1,2,3)] assms(4) by simp
  have df: "sent (snd (delete P instance ident rev0 (Some opts) w)) =
              sent w @ [?head, client_request P instance (heap w) ''DELETE'' (or_empty ident) ?args]"
    using sent_client [of P w1 "''DELETE''" ?args ?args "instance" "or_empty ident"]
    by (simp add: d client_request_delete w1)
  have du: "sent (snd (delete P instance ident rev0 None w)) =
              sent w @ [client_request P instance (heap w) ''DELETE'' (or_empty ident) ?args]"
    using sent_client [of P w "''DELETE''" ?args ?args "instance" "or_empty ident"]
    by (simp add: delete_unforced client_request_delete)
  from w1(2) s sf su d df du show ?thesis
    by blast
qed

theorem force_keeps_revision_when_missing_witness:
  \<open>map (\<lambda>r. (req_method r, req_path r, req_written r))
        (sent (snd (save demo demo_db (Some ''a'') 0 (Some force_options) (demo_world unforced_script))))
     = [(''HEAD'', ''/db/a'', []),
        (''PUT'', ''/db/a'', [''{"name":"x","_rev":"1-old"}''])]
   \<and> map (\<lambda>r. (req_method r, req_path r, req_written r))
        (sent (snd (delete demo demo_db (Some ''a'') (JStr ''1-old'') (Some force_options)
                      (demo_world unforced_script))))
     = [(''HEAD'', ''/db/a'', []), (''DELETE'', ''/db/a?rev=1-old'', [])]\<close>
proof -
  let ?head = "client_request demo demo_db demo_heap ''HEAD'' ''a'' JNull"
  let ?w1 = "\<lparr>heap = demo_heap, sent = [?head], server = [NetResponse created_response]\<rparr>"
  have f: "get_prop (heap (demo_world unforced_script)) force_options ''force'' = Inr (JBool True)"
    by (simp add: get_prop_def lookup_prop_def force_options_def)
  have t: "truthy (JBool True)"
    by simp
  have e: "exists demo demo_db (Some ''a'') (demo_world unforced_script)
             = (Called (None, JBool False, JNull), ?w1)"
    by (simp add: client_defs demo_defs unforced_script_def missing_response_def)
  have n: "\<not> truthy (JBool False)"
    by simp
  have p: \<open>client_payload demo (heap (demo_world unforced_script))
             (if truthy_str (Some ''a'') then ''PUT'' else ''POST'') (JRef 0)
             = Inr (JStr ''{"name":"x","_rev":"1-old"}'')\<close>
    by (simp add: client_payload_def truthy_str_def demo_defs demo_heap_def)
  note inst = force_keeps_revision_when_missing
               [OF f t e n, where doc = 0 and ?rev0.0 = "JStr ''1-old''"]
  from inst p
  have s: \<open>sent (snd (save demo demo_db (Some ''a'') 0 (Some force_options)
                         (demo_world unforced_script))) =
             sent (demo_world unforced_script) @
             [client_request demo demo_db (heap (demo_world unforced_script)) ''HEAD''
                (or_empty (Some ''a'')) JNull,
              client_request demo demo_db (heap (demo_world unforced_script))
                (if truthy_str (Some ''a'') then ''PUT'' else ''POST'') (or_empty (Some ''a''))
                (JStr ''{"name":"x","_rev":"1-old"}'')]\<close>
    by blast
  from inst
  have d: "sent (snd (delete demo demo_db (Some ''a'') (JStr ''1-old'') (Some force_options)
                         (demo_world unforced_script))) =
             sent (demo_world unforced_script) @
             [client_request demo demo_db (heap (demo_world unforced_script)) ''HEAD''
                (or_empty (Some ''a'')) JNull,
              client_request demo demo_db (heap (demo_world unforced_script)) ''DELETE''
                (or_empty (Some ''a''))
                (JObj (if truthy (JStr ''1-old'') then [(''rev'', JStr ''1-old'')] else []))]"
    by blast
  from s d show ?thesis
    by (simp add: client_request_def Let_def demo_defs truthy_str_def or_empty_def to_string_def)
qed

section \<open>What \<^verbatim>\<open>save\<close> hands back\<close>

text \<open>
  C3. Saving the document at address 0 under the id \<^verbatim>\<open>a\<close>, the server answering 201 with
  the id \<^verbatim>\<open>a\<close> and the revision \<^verbatim>\<open>4-def\<close>. Without \<^verbatim>\<open>force\<close> the callback gets the
  parsed answer of the server and the response, and the document in the store is as it
  was: no \<^verbatim>\<open>_id\<close>, the old \<^verbatim>\<open>_rev\<close>. With \<^verbatim>\<open>force\<close> the callback gets the document
  itself, whose \<^verbatim>\<open>_id\<close> and \<^verbatim>\<open>_rev\<close> are those of the answer.
\<close>

theorem save_without_force_leaves_document:
  "fst (save demo demo_db (Some ''a'') 0 None (demo_world [NetResponse created_response]))
     = Called (None,
               JObj [(''ok'', JBool True), (''id'', JStr ''a''), (''rev'', JStr ''4-def'')],
               Some created_response)
   \<and> heap (snd (save demo demo_db (Some ''a'') 0 None (demo_world [NetResponse created_response]))) 0
     = [(''name'', JStr ''x''), (''_rev'', JStr ''1-old'')]
   \<and> fst (save demo demo_db (Some ''a'') 0 (Some force_options) (demo_world forced_script))
     = Called (None, JRef 0, None)
   \<and> heap (snd (save demo demo_db (Some ''a'') 0 (Some force_options) (demo_world forced_script))) 0
     = [(''name'', JStr ''x''), (''_rev'', JStr ''4-def''), (''_id'', JStr ''a'')]"
proof -
  let ?head = "client_request demo demo_db demo_heap ''HEAD'' ''a'' JNull"
  let ?w1 = "\<lparr>heap = demo_heap, sent = [?head], server = [NetResponse created_response]\<rparr>"
  have u: "save demo demo_db (Some ''a'') 0 None (demo_world [NetResponse created_response])
             = client demo demo_db ''PUT'' ''a'' (JRef 0) (demo_world [NetResponse created_response])"
    by (simp add: save_unforced truthy_str_def or_empty_def)
  have c: "fst (client demo demo_db ''PUT'' ''a'' (JRef 0) (demo_world [NetResponse created_response]))
             = Called (None,
                       JObj [(''ok'', JBool True), (''id'', JStr ''a''), (''rev'', JStr ''4-def'')],
                       Some created_response)"
    by (simp add: client_defs demo_defs demo_heap_def created_response_def)
  have h: "heap (snd (client demo demo_db ''PUT'' ''a'' (JRef 0)
                        (demo_world [NetResponse created_response]))) 0
             = [(''name'', JStr ''x''), (''_rev'', JStr ''1-old'')]"
    by (simp add: heap_client demo_world_def demo_heap_def)
  have e: "exists demo demo_db (Some ''a'') (demo_world forced_script)
             = (Called (None, JBool True, JStr ''3-abc''), ?w1)"
    by (simp add: client_defs demo_defs forced_script_def found_response_def substr_def)
  have g: "get_prop (heap (demo_world forced_script)) force_options ''force'' = Inr (JBool True)"
    by (simp add: get_prop_def lookup_prop_def force_options_def)
  have f: "save demo demo_db (Some ''a'') 0 (Some force_options) (demo_world forced_script)
             = save_write demo demo_db ''PUT'' ''a'' 0
                 (?w1\<lparr>heap := demo_heap(0 := set_prop (demo_heap 0) ''_rev'' (JStr ''3-abc''))\<rparr>)"
    using save_forced [OF g _ e, of 0]
    by (simp add: truthy_str_def or_empty_def demo_world_def)
  have w: "save_write demo demo_db ''PUT'' ''a'' 0
             (?w1\<lparr>heap := demo_heap(0 := set_prop (demo_heap 0) ''_rev'' (JStr ''3-abc''))\<rparr>)
           = (Called (None, JRef 0, None),
              \<lparr>heap = demo_heap(0 := [(''name'', JStr ''x''), (''_rev'', JStr ''4-def''),
                                       (''_id'', JStr ''a'')]),
               sent = [?head,
                       client_request demo demo_db
                         (demo_heap(0 := set_prop (demo_heap 0) ''_rev'' (JStr ''3-abc'')))
                         ''PUT'' ''a'' (JStr (demo_object
                            (set_prop (demo_heap 0) ''_rev'' (JStr ''3-abc''))))],
               server = []\<rparr>)"
    by (simp add: save_write_def client_def client_payload_def client_send_def client_on_end_def
          response_data_def Let_def get_prop_def lookup_prop_def
          demo_def demo_transport_def demo_parse_def demo_stringify_def
          created_body_def conflict_body_def ok_body_def demo_heap_def created_response_def)
  from u c h f w show ?thesis
    by simp
qed

end
